theory Spec2Isabelle
  imports Complex_Main "HOL-Library.Sublist"
begin

section \<open>Conversions between XYZ geometries and SMILES strings (mofa/utils/xyz.py)\<close>

text \<open>
  The module is a thin layer over the RDKit toolkit.  Its own logic is the loop of
  \<open>unsaturated_xyz_to_mol\<close>, which re-derives the order of every bond from the
  distance between its two atoms and the reference tables of \<open>mofa.utils.src.const\<close>.

  Conventions of the embedding:
  \<^item> an exception is the \<open>Inl\<close> branch of a sum; a function that calls the toolkit
    returns the log of the calls it made together with its outcome;
  \<^item> the functions of RDKit are parameters (the record \<open>toolkit\<close>): each may succeed
    or raise; which of them change their argument and which return a new molecule is
    said where the record is declared;
  \<^item> the array operations of numpy are parameters (the record \<open>numpy\<close>): they compute
    in double precision, and the model does not fix how they round;
  \<^item> the tables \<open>BONDS_2\<close>, \<open>BONDS_3\<close> and the list \<open>MARGINS_EDM\<close> of the module
    \<open>const\<close> are parameters too (the record \<open>const_module\<close>).
\<close>

subsection \<open>Exceptions and Python indexing\<close>

datatype error =
    IndexError
  | ValueError
  | ArgumentError
  | ToolkitError string

text \<open>\<open>xs[i]\<close> for a non-negative index: an index past the end raises.\<close>

definition py_getitem :: "'a list \<Rightarrow> nat \<Rightarrow> error + 'a" where
  "py_getitem xs i = (if i < length xs then Inr (xs ! i) else Inl IndexError)"

subsection \<open>Double-precision values\<close>

text \<open>
  A coordinate or a distance is a double: a finite value, an infinity or NaN.
  Comparing a double with a threshold is exact, and false when the double is NaN.
\<close>

datatype float64 =
    Finite real
  | PosInf
  | NegInf
  | NaN

definition float64_less :: "float64 \<Rightarrow> real \<Rightarrow> bool" where
  "float64_less d thr =
     (case d of Finite x \<Rightarrow> x < thr | PosInf \<Rightarrow> False | NegInf \<Rightarrow> True | NaN \<Rightarrow> False)"

subsection \<open>The reference tables\<close>

text \<open>
  \<open>const.BONDS_2[a][b]\<close> and \<open>const.BONDS_3[a][b]\<close> are dictionaries of
  dictionaries from element symbols to bond lengths in picometers;
  \<open>const.MARGINS_EDM\<close> is a sequence of margins, read at the indices 1 and 2.
  Lengths and margins are numbers whose sum is exact (integers, in the tables the
  module was written for).
\<close>

record const_module =
  BONDS_2 :: "string \<rightharpoonup> (string \<rightharpoonup> real)"
  BONDS_3 :: "string \<rightharpoonup> (string \<rightharpoonup> real)"
  MARGINS_EDM :: "real list"

subsection \<open>The bond-order classifier (lines 85 to 98)\<close>

datatype BondType =
    UNSPECIFIED
  | SINGLE
  | DOUBLE
  | TRIPLE
  | QUADRUPLE
  | AROMATIC
  | OTHER

text \<open>
  The nesting is the source's: the triple-bond table is consulted only inside the
  branch where the distance is below the double-bond threshold, and \<open>margins[1]\<close>,
  \<open>margins[2]\<close> are read only where the source reads them.
\<close>

definition infer_bond_type :: "const_module \<Rightarrow> string \<Rightarrow> string \<Rightarrow> float64 \<Rightarrow> error + BondType" where
  "infer_bond_type c type_1 type_2 distance =
     (let margins = MARGINS_EDM c in
      case BONDS_2 c type_1 of
        None \<Rightarrow> Inr SINGLE
      | Some row_2 \<Rightarrow>
          (case row_2 type_2 of
             None \<Rightarrow> Inr SINGLE
           | Some len_2 \<Rightarrow>
               (case py_getitem margins 1 of
                  Inl e \<Rightarrow> Inl e
                | Inr margin_1 \<Rightarrow>
                    (let thr_bond2 = len_2 + margin_1 in
                     if float64_less distance thr_bond2 then
                       (case BONDS_3 c type_1 of
                          None \<Rightarrow> Inr DOUBLE
                        | Some row_3 \<Rightarrow>
                            (case row_3 type_2 of
                               None \<Rightarrow> Inr DOUBLE
                             | Some len_3 \<Rightarrow>
                                 (case py_getitem margins 2 of
                                    Inl e \<Rightarrow> Inl e
                                  | Inr margin_2 \<Rightarrow>
                                      (let thr_bond3 = len_3 + margin_2 in
                                       if float64_less distance thr_bond3 then Inr TRIPLE
                                       else Inr DOUBLE))))
                     else Inr SINGLE))))"

text \<open>Tables for the examples: carbon-carbon lengths as in common references.\<close>

definition example_const :: const_module where
  "example_const =
     \<lparr> BONDS_2 = [''C'' \<mapsto> [''C'' \<mapsto> 134, ''N'' \<mapsto> 129], ''P'' \<mapsto> [''O'' \<mapsto> 150]],
       BONDS_3 = [''C'' \<mapsto> [''C'' \<mapsto> 120], ''B'' \<mapsto> [''B'' \<mapsto> 150]],
       MARGINS_EDM = [10, 5, 2] \<rparr>"

subsection \<open>Molecules, as far as the module reads and writes them\<close>

text \<open>
  An atom is read through \<open>GetIdx\<close> and \<open>GetSymbol\<close>, a bond through
  \<open>GetBeginAtom\<close>, \<open>GetEndAtom\<close> and written through \<open>SetBondType\<close>; a molecule
  gives its bonds (\<open>GetBonds\<close>) and its conformers, a conformer its positions, one
  row of three coordinates (in angstroms) for each atom.
\<close>

record Atom =
  GetIdx :: nat
  GetSymbol :: string

record Bond =
  GetBeginAtom :: Atom
  GetEndAtom :: Atom
  GetBondType :: BondType

type_synonym position = "float64 \<times> float64 \<times> float64"

record Conformer =
  GetPositions :: "position list"

record Mol =
  GetAtoms :: "Atom list"
  GetBonds :: "Bond list"
  GetConformers :: "Conformer list"
  property_cache :: "int list option"

definition SetBondType :: "Bond \<Rightarrow> BondType \<Rightarrow> Bond" where
  "SetBondType bond bond_type = bond\<lparr>GetBondType := bond_type\<rparr>"

text \<open>\<open>mol.GetConformer(0)\<close> raises \<open>ValueError\<close> when the molecule has no conformer.\<close>

definition GetConformer :: "Mol \<Rightarrow> nat \<Rightarrow> error + Conformer" where
  "GetConformer mol i =
     (if i < length (GetConformers mol) then Inr (GetConformers mol ! i) else Inl ValueError)"

subsection \<open>The distance of a bond (lines 78 to 83)\<close>

text \<open>
  The three numpy operations of the source, on doubles: the difference of two rows of
  the positions array, \<open>np.linalg.norm\<close> of a row (by default the 2-norm) and the
  product of two doubles.  Each gives the double numpy computes; the model assumes
  nothing of how it is rounded, nor of what it does with infinities and NaN.
\<close>

record numpy =
  subtract :: "position \<Rightarrow> position \<Rightarrow> position"
  linalg_norm :: "position \<Rightarrow> float64"
  multiply :: "float64 \<Rightarrow> float64 \<Rightarrow> float64"

text \<open>\<open>positions[i, :]\<close> raises \<open>IndexError\<close> for a row the array does not have.\<close>

definition bond_distance :: "numpy \<Rightarrow> position list \<Rightarrow> Bond \<Rightarrow> error + float64" where
  "bond_distance np positions bond =
     (let atom_1 = GetBeginAtom bond; atom_2 = GetEndAtom bond in
      case py_getitem positions (GetIdx atom_1) of
        Inl e \<Rightarrow> Inl e
      | Inr p_1 \<Rightarrow>
          (case py_getitem positions (GetIdx atom_2) of
             Inl e \<Rightarrow> Inl e
           | Inr p_2 \<Rightarrow>
               Inr (multiply np (linalg_norm np (subtract np p_1 p_2)) (Finite 100))))"

subsection \<open>The loop over the bonds (lines 75 to 99)\<close>

text \<open>One iteration: the distance, the classification, \<open>bond.SetBondType(bond_type)\<close>.\<close>

definition infer_bond :: "numpy \<Rightarrow> const_module \<Rightarrow> position list \<Rightarrow> Bond \<Rightarrow> error + Bond" where
  "infer_bond np c positions bond =
     (case bond_distance np positions bond of
        Inl e \<Rightarrow> Inl e
      | Inr distance \<Rightarrow>
          (let type_1 = GetSymbol (GetBeginAtom bond); type_2 = GetSymbol (GetEndAtom bond) in
           case infer_bond_type c type_1 type_2 distance of
             Inl e \<Rightarrow> Inl e
           | Inr bond_type \<Rightarrow> Inr (SetBondType bond bond_type)))"

text \<open>The loop stops at the first iteration that raises.\<close>

fun infer_bond_orders :: "numpy \<Rightarrow> const_module \<Rightarrow> position list \<Rightarrow> Bond list \<Rightarrow> error + Bond list" where
  "infer_bond_orders np c positions [] = Inr []"
| "infer_bond_orders np c positions (bond # bonds) =
     (case infer_bond np c positions bond of
        Inl e \<Rightarrow> Inl e
      | Inr bond' \<Rightarrow>
          (case infer_bond_orders np c positions bonds of
             Inl e \<Rightarrow> Inl e
           | Inr bonds' \<Rightarrow> Inr (bond' # bonds')))"

subsection \<open>The toolkit\<close>

text \<open>
  The functions of RDKit that the module calls.  A parser returns \<open>None\<close> for a text
  it cannot read.  \<open>DetermineConnectivity\<close>, \<open>DetermineBondOrders\<close>, \<open>EmbedMolecule\<close>
  and \<open>MMFFOptimizeMolecule\<close> change the molecule they are given: the model gives
  them the molecule and takes the changed one.  \<open>AddHs\<close> leaves its argument as it
  is and returns a new molecule; its two flags are \<open>explicitOnly\<close> and \<open>addCoords\<close>.
  \<open>EmbedMolecule\<close> takes the random seed.  \<open>UpdatePropertyCache\<close> recomputes the
  valences of the atoms and stores them in the molecule: \<open>PropertyCache\<close> is that
  computation, which raises on a valence RDKit refuses.
\<close>

record toolkit =
  MolFromXYZBlock :: "string \<Rightarrow> error + Mol option"
  DetermineConnectivity :: "Mol \<Rightarrow> error + Mol"
  DetermineBondOrders :: "Mol \<Rightarrow> error + Mol"
  MolToSmiles :: "Mol \<Rightarrow> error + string"
  MolFromSmiles :: "string \<Rightarrow> error + Mol option"
  AddHs :: "bool \<Rightarrow> bool \<Rightarrow> Mol \<Rightarrow> error + Mol"
  EmbedMolecule :: "int \<Rightarrow> Mol \<Rightarrow> error + Mol"
  MMFFOptimizeMolecule :: "Mol \<Rightarrow> error + Mol"
  MolToXYZBlock :: "Mol \<Rightarrow> error + string"
  PropertyCache :: "Mol \<Rightarrow> error + int list"

definition UpdatePropertyCache :: "toolkit \<Rightarrow> Mol \<Rightarrow> error + Mol" where
  "UpdatePropertyCache tk mol =
     (case PropertyCache tk mol of
        Inl e \<Rightarrow> Inl e
      | Inr valences \<Rightarrow> Inr (mol\<lparr>property_cache := Some valences\<rparr>))"

text \<open>A toolkit function that wants a molecule raises when it is given \<open>None\<close>.\<close>

definition on_mol :: "(Mol \<Rightarrow> error + 'a) \<Rightarrow> Mol option \<Rightarrow> error + 'a" where
  "on_mol f mol = (case mol of None \<Rightarrow> Inl ArgumentError | Some m \<Rightarrow> f m)"

subsection \<open>Runs: the log of toolkit calls and the outcome\<close>

datatype event =
    Acquire_generate_lock
  | Release_generate_lock
  | Call_MolFromXYZBlock
  | Call_DetermineConnectivity
  | Call_DetermineBondOrders
  | Call_MolToSmiles
  | Call_MolFromSmiles
  | Call_AddHs
  | Call_EmbedMolecule int
  | Call_MMFFOptimizeMolecule
  | Call_MolToXYZBlock
  | Call_UpdatePropertyCache

type_synonym 'a run = "event list \<times> (error + 'a)"

definition ret :: "'a \<Rightarrow> 'a run" where
  "ret x = ([], Inr x)"

definition lift :: "error + 'a \<Rightarrow> 'a run" where
  "lift r = ([], r)"

definition call :: "event \<Rightarrow> error + 'a \<Rightarrow> 'a run" where
  "call ev r = ([ev], r)"

text \<open>Sequencing: an exception ends the run, and the log keeps what was called.\<close>

definition then_run :: "'a run \<Rightarrow> ('a \<Rightarrow> 'b run) \<Rightarrow> 'b run" where
  "then_run m f =
     (case m of
        (evs, Inl e) \<Rightarrow> (evs, Inl e)
      | (evs, Inr x) \<Rightarrow> (case f x of (evs', r) \<Rightarrow> (evs @ evs', r)))"

text \<open>
  \<open>with _generate_lock:\<close> acquires the lock, runs the body and releases the lock,
  also when the body raises.  In a run of one thread the lock is free on entry.
\<close>

definition with_generate_lock :: "'a run \<Rightarrow> 'a run" where
  "with_generate_lock body =
     (case body of (evs, r) \<Rightarrow> (Acquire_generate_lock # evs @ [Release_generate_lock], r))"

definition outcome :: "'a run \<Rightarrow> error + 'a" where
  "outcome m = snd m"

definition calls :: "'a run \<Rightarrow> event list" where
  "calls m = fst m"

subsection \<open>The four functions of the module\<close>

definition xyz_to_mol :: "toolkit \<Rightarrow> string \<Rightarrow> Mol run" where
  "xyz_to_mol tk xyz =
     then_run (call Call_MolFromXYZBlock (MolFromXYZBlock tk xyz)) (\<lambda>mol.
     then_run (call Call_DetermineConnectivity (on_mol (DetermineConnectivity tk) mol)) (\<lambda>mol.
     then_run (call Call_DetermineBondOrders (DetermineBondOrders tk mol)) (\<lambda>mol.
     ret mol)))"

definition xyz_to_smiles :: "toolkit \<Rightarrow> string \<Rightarrow> string run" where
  "xyz_to_smiles tk xyz =
     then_run (xyz_to_mol tk xyz) (\<lambda>mol.
     call Call_MolToSmiles (MolToSmiles tk mol))"

definition smiles_to_xyz :: "toolkit \<Rightarrow> string \<Rightarrow> string run" where
  "smiles_to_xyz tk smiles =
     with_generate_lock
       (then_run (call Call_MolFromSmiles (MolFromSmiles tk smiles)) (\<lambda>mol.
        then_run (call Call_AddHs (on_mol (AddHs tk False False) mol)) (\<lambda>mol.
        then_run (call (Call_EmbedMolecule 1) (EmbedMolecule tk 1 mol)) (\<lambda>mol.
        then_run (call Call_MMFFOptimizeMolecule (MMFFOptimizeMolecule tk mol)) (\<lambda>mol.
        then_run (call Call_MolToXYZBlock (MolToXYZBlock tk mol)) (\<lambda>xyz.
        ret xyz))))))"

text \<open>
  In \<open>unsaturated_xyz_to_mol\<close> the molecule that \<open>Chem.AddHs\<close> returns is not bound
  to a name: the function returns the molecule it passed to \<open>AddHs\<close>.
\<close>

definition unsaturated_xyz_to_mol :: "numpy \<Rightarrow> toolkit \<Rightarrow> const_module \<Rightarrow> string \<Rightarrow> Mol run" where
  "unsaturated_xyz_to_mol np tk c xyz =
     then_run (call Call_MolFromXYZBlock (MolFromXYZBlock tk xyz)) (\<lambda>mol.
     then_run (call Call_DetermineConnectivity (on_mol (DetermineConnectivity tk) mol)) (\<lambda>mol.
     then_run (lift (GetConformer mol 0)) (\<lambda>conformer.
     let positions = GetPositions conformer in
     then_run (lift (infer_bond_orders np c positions (GetBonds mol))) (\<lambda>bonds.
     let mol = mol\<lparr>GetBonds := bonds\<rparr> in
     then_run (call Call_UpdatePropertyCache (UpdatePropertyCache tk mol)) (\<lambda>mol.
     then_run (call Call_AddHs (AddHs tk True True mol)) (\<lambda>_.
     ret mol))))))"

subsection \<open>Two threads and the lock\<close>

text \<open>
  A schedule of two threads is the sequence of their events in the order in which
  they happen; its projection on a thread is the log of that thread.  A schedule
  respects the lock when the lock is acquired only while it is free and released
  only while it is held: an acquisition blocks until then.
\<close>

datatype thread = Thread_1 | Thread_2

type_synonym schedule = "(thread \<times> event) list"

definition project :: "thread \<Rightarrow> schedule \<Rightarrow> event list" where
  "project t s = map snd (filter (\<lambda>x. fst x = t) s)"

fun lock_respected :: "bool \<Rightarrow> schedule \<Rightarrow> bool" where
  "lock_respected held [] = True"
| "lock_respected held ((t, Acquire_generate_lock) # s) = (\<not> held \<and> lock_respected True s)"
| "lock_respected held ((t, Release_generate_lock) # s) = (held \<and> lock_respected False s)"
| "lock_respected held ((t, ev) # s) = lock_respected held s"

text \<open>One thread runs to its end before the other begins.\<close>

definition serial :: "schedule \<Rightarrow> event list \<Rightarrow> event list \<Rightarrow> bool" where
  "serial s log_1 log_2 =
     (s = map (Pair Thread_1) log_1 @ map (Pair Thread_2) log_2
      \<or> s = map (Pair Thread_2) log_2 @ map (Pair Thread_1) log_1)"

subsection \<open>The call sequence of \<open>smiles_to_xyz\<close> in the specification's words\<close>

text \<open>
  Parse the SMILES, add explicit hydrogens, embed 3D coordinates, optimize the
  geometry, serialize to XYZ text.
\<close>

definition spec_smiles_to_xyz_calls :: "event list" where
  "spec_smiles_to_xyz_calls =
     [Call_MolFromSmiles, Call_AddHs, Call_EmbedMolecule 1, Call_MMFFOptimizeMolecule,
      Call_MolToXYZBlock]"

subsection \<open>Arithmetic, a toolkit and inputs for the examples\<close>

text \<open>
  Arithmetic without rounding on finite values.  On the inputs of the examples every
  intermediate value is a double, so that this is what double precision computes
  there.
\<close>

fun exact_op :: "(real \<Rightarrow> real \<Rightarrow> real) \<Rightarrow> float64 \<Rightarrow> float64 \<Rightarrow> float64" where
  "exact_op f (Finite x) (Finite y) = Finite (f x y)"
| "exact_op f a b = NaN"

fun exact_norm :: "position \<Rightarrow> float64" where
  "exact_norm (Finite x, Finite y, Finite z) = Finite (sqrt (x\<^sup>2 + y\<^sup>2 + z\<^sup>2))"
| "exact_norm v = NaN"

definition exact_numpy :: numpy where
  "exact_numpy =
     \<lparr> subtract = (\<lambda>p q. case p of (x1, y1, z1) \<Rightarrow> case q of (x2, y2, z2) \<Rightarrow>
          (exact_op (-) x1 x2, exact_op (-) y1 y2, exact_op (-) z1 z2)),
       linalg_norm = exact_norm,
       multiply = exact_op (*) \<rparr>"

definition carbon :: "nat \<Rightarrow> Atom" where
  "carbon i = \<lparr>GetIdx = i, GetSymbol = ''C''\<rparr>"

definition hydrogen :: "nat \<Rightarrow> Atom" where
  "hydrogen i = \<lparr>GetIdx = i, GetSymbol = ''H''\<rparr>"

text \<open>
  Two carbon atoms 1.1875 angstroms apart, as an XYZ block and as the parsed
  molecule.
\<close>

definition example_xyz :: string where
  "example_xyz = ''2'' @ [CHR 0x0A, CHR 0x0A] @ ''C 0.0 0.0 0.0'' @ [CHR 0x0A] @ ''C 0.0 0.0 1.1875'' @ [CHR 0x0A]"

definition example_positions :: "position list" where
  "example_positions = [(Finite 0, Finite 0, Finite 0), (Finite 0, Finite 0, Finite (19 / 16))]"

definition example_mol :: Mol where
  "example_mol =
     \<lparr> GetAtoms = [carbon 0, carbon 1], GetBonds = [],
       GetConformers = [\<lparr>GetPositions = example_positions\<rparr>], property_cache = None \<rparr>"

text \<open>A molecule graph of carbon atoms without a conformer, as a SMILES parser gives it.\<close>

definition carbon_chain :: "nat \<Rightarrow> Mol" where
  "carbon_chain n =
     \<lparr> GetAtoms = map carbon [0..<n], GetBonds = [], GetConformers = [], property_cache = None \<rparr>"

definition chain_bonds :: "Atom list \<Rightarrow> Bond list" where
  "chain_bonds atoms =
     map (\<lambda>(a, b). \<lparr>GetBeginAtom = a, GetEndAtom = b, GetBondType = SINGLE\<rparr>) (zip atoms (tl atoms))"

text \<open>
  A small toolkit.  It parses one XYZ block and one SMILES string and returns \<open>None\<close>
  for every other text, joins neighbouring atoms, adds one hydrogen atom, embeds a
  molecule on a line, and refuses to optimize a molecule without a conformer.
\<close>

definition example_toolkit :: toolkit where
  "example_toolkit =
     \<lparr> MolFromXYZBlock = (\<lambda>xyz. if xyz = example_xyz then Inr (Some example_mol) else Inr None),
       DetermineConnectivity = (\<lambda>mol. Inr (mol\<lparr>GetBonds := chain_bonds (GetAtoms mol)\<rparr>)),
       DetermineBondOrders = (\<lambda>mol. Inr mol),
       MolToSmiles = (\<lambda>mol. Inr (concat (map GetSymbol (GetAtoms mol)))),
       MolFromSmiles = (\<lambda>smiles.
          if smiles = ''C#C'' then Inr (Some (carbon_chain 2)) else Inr None),
       AddHs = (\<lambda>explicitOnly addCoords mol.
          Inr (mol\<lparr>GetAtoms := GetAtoms mol @ [hydrogen (length (GetAtoms mol))]\<rparr>)),
       EmbedMolecule = (\<lambda>seed mol.
          Inr (mol\<lparr>GetConformers :=
                 [\<lparr>GetPositions = map (\<lambda>a. (Finite (real (GetIdx a)), Finite 0, Finite 0)) (GetAtoms mol)\<rparr>]\<rparr>)),
       MMFFOptimizeMolecule = (\<lambda>mol. if GetConformers mol = [] then Inl ValueError else Inr mol),
       MolToXYZBlock = (\<lambda>mol. Inr (concat (map GetSymbol (GetAtoms mol)))),
       PropertyCache = (\<lambda>mol. Inr (map (\<lambda>a. 4) (GetAtoms mol))) \<rparr>"

text \<open>The carbon-carbon bond of the example and the molecule expected for it.\<close>

definition cc_bond :: "BondType \<Rightarrow> Bond" where
  "cc_bond bond_type = \<lparr>GetBeginAtom = carbon 0, GetEndAtom = carbon 1, GetBondType = bond_type\<rparr>"

definition example_unsaturated :: Mol where
  "example_unsaturated =
     \<lparr> GetAtoms = [carbon 0, carbon 1], GetBonds = [cc_bond TRIPLE],
       GetConformers = [\<lparr>GetPositions = example_positions\<rparr>], property_cache = Some [4, 4] \<rparr>"

text \<open>A bond from atom 0 to atom 1 with the given element symbols, its type not yet set.\<close>

definition example_bond :: "string \<Rightarrow> string \<Rightarrow> Bond" where
  "example_bond type_1 type_2 =
     \<lparr> GetBeginAtom = \<lparr>GetIdx = 0, GetSymbol = type_1\<rparr>,
       GetEndAtom = \<lparr>GetIdx = 1, GetSymbol = type_2\<rparr>,
       GetBondType = UNSPECIFIED \<rparr>"

text \<open>
  A toolkit that parses every XYZ block to two atoms with the given symbols at the
  positions of the example and joins them by one bond, whose type is not yet set.
\<close>

definition pair_mol :: "string \<Rightarrow> string \<Rightarrow> Bond list \<Rightarrow> int list option \<Rightarrow> Mol" where
  "pair_mol type_1 type_2 bonds cache =
     \<lparr> GetAtoms = [\<lparr>GetIdx = 0, GetSymbol = type_1\<rparr>, \<lparr>GetIdx = 1, GetSymbol = type_2\<rparr>],
       GetBonds = bonds, GetConformers = [\<lparr>GetPositions = example_positions\<rparr>],
       property_cache = cache \<rparr>"

definition pair_toolkit :: "string \<Rightarrow> string \<Rightarrow> toolkit" where
  "pair_toolkit type_1 type_2 =
     example_toolkit
       \<lparr> MolFromXYZBlock := (\<lambda>xyz. Inr (Some (pair_mol type_1 type_2 [] None))),
         DetermineConnectivity := (\<lambda>mol. Inr (mol\<lparr>GetBonds := [example_bond type_1 type_2]\<rparr>)) \<rparr>"

text \<open>The log of one successful call of \<open>smiles_to_xyz\<close>, and two schedules.\<close>

definition example_log :: "event list" where
  "example_log = Acquire_generate_lock # spec_smiles_to_xyz_calls @ [Release_generate_lock]"

definition example_schedule :: schedule where
  "example_schedule = map (Pair Thread_2) example_log @ map (Pair Thread_1) example_log"

definition interleaved_bodies :: schedule where
  "interleaved_bodies =
     [(Thread_1, Call_MolFromSmiles), (Thread_2, Call_MolFromSmiles),
      (Thread_1, Call_AddHs), (Thread_2, Call_AddHs),
      (Thread_1, Call_EmbedMolecule 1), (Thread_2, Call_EmbedMolecule 1),
      (Thread_1, Call_MMFFOptimizeMolecule), (Thread_2, Call_MMFFOptimizeMolecule),
      (Thread_1, Call_MolToXYZBlock), (Thread_2, Call_MolToXYZBlock)]"

section \<open>The classifier\<close>

lemma float64_less_trans: "float64_less d a \<Longrightarrow> a \<le> b \<Longrightarrow> float64_less d b"
  by (cases d) (simp_all add: float64_less_def)

lemma infer_bond_type_both_tables:
  assumes "BONDS_2 c type_1 = Some row_2" and "row_2 type_2 = Some len_2"
    and "BONDS_3 c type_1 = Some row_3" and "row_3 type_2 = Some len_3"
    and "2 < length (MARGINS_EDM c)"
  shows "infer_bond_type c type_1 type_2 distance =
     Inr (if float64_less distance (len_2 + MARGINS_EDM c ! 1) then
            (if float64_less distance (len_3 + MARGINS_EDM c ! 2) then TRIPLE else DOUBLE)
          else SINGLE)"
  using assms by (simp add: infer_bond_type_def py_getitem_def)

text \<open>
  Where the triple threshold does not exceed the double threshold, testing the
  triple threshold first gives what the nested tests of the source give.
\<close>

lemma infer_bond_type_ordered_tables:
  assumes "BONDS_2 c type_1 = Some row_2" and "row_2 type_2 = Some len_2"
    and "BONDS_3 c type_1 = Some row_3" and "row_3 type_2 = Some len_3"
    and "2 < length (MARGINS_EDM c)"
    and "len_3 + MARGINS_EDM c ! 2 \<le> len_2 + MARGINS_EDM c ! 1"
  shows "infer_bond_type c type_1 type_2 distance =
     Inr (if float64_less distance (len_3 + MARGINS_EDM c ! 2) then TRIPLE
          else if float64_less distance (len_2 + MARGINS_EDM c ! 1) then DOUBLE
          else SINGLE)"
  using float64_less_trans [OF _ assms(6), of distance]
  by (auto simp add: infer_bond_type_both_tables [OF assms(1-5)])

lemma infer_bond_type_no_double_entry:
  assumes "BONDS_2 c type_1 = None \<or> (\<exists>row_2. BONDS_2 c type_1 = Some row_2 \<and> row_2 type_2 = None)"
  shows "infer_bond_type c type_1 type_2 distance = Inr SINGLE"
  using assms by (auto simp add: infer_bond_type_def)

lemma infer_bond_type_range:
  "infer_bond_type c type_1 type_2 distance = Inr t \<Longrightarrow> t = SINGLE \<or> t = DOUBLE \<or> t = TRIPLE"
  by (auto simp add: infer_bond_type_def Let_def split: option.splits sum.splits if_splits)



section \<open>Runs of the toolkit\<close>

lemma then_run_call: "then_run (call ev r) f =
   (case r of Inl e \<Rightarrow> ([ev], Inl e) | Inr x \<Rightarrow> (ev # fst (f x), snd (f x)))"
  by (simp add: then_run_def call_def split: sum.splits prod.splits)

lemma then_run_lift: "then_run (lift r) f = (case r of Inl e \<Rightarrow> ([], Inl e) | Inr x \<Rightarrow> f x)"
  by (simp add: then_run_def lift_def split: sum.splits prod.splits)

section \<open>The loop over the bonds\<close>

text \<open>
  An iteration keeps the two atoms of the bond and gives it the type the classifier
  returns for their symbols and their distance.
\<close>

lemma bond_distance_SetBondType:
  "bond_distance np positions (SetBondType bond t) = bond_distance np positions bond"
  by (simp add: bond_distance_def SetBondType_def)

lemma infer_bond_result:
  assumes "infer_bond np c positions bond = Inr bond'"
  shows "GetBeginAtom bond' = GetBeginAtom bond \<and> GetEndAtom bond' = GetEndAtom bond
     \<and> (\<exists>distance. bond_distance np positions bond' = Inr distance
           \<and> infer_bond_type c (GetSymbol (GetBeginAtom bond')) (GetSymbol (GetEndAtom bond')) distance
               = Inr (GetBondType bond'))"
proof -
  from assms obtain distance t where d: "bond_distance np positions bond = Inr distance"
    and t: "infer_bond_type c (GetSymbol (GetBeginAtom bond)) (GetSymbol (GetEndAtom bond)) distance = Inr t"
    and b: "bond' = SetBondType bond t"
    by (auto simp add: infer_bond_def Let_def split: sum.splits)
  from b have e: "GetBeginAtom bond' = GetBeginAtom bond" "GetEndAtom bond' = GetEndAtom bond"
    "GetBondType bond' = t"
    by (simp_all add: SetBondType_def)
  from d b have "bond_distance np positions bond' = Inr distance"
    by (simp add: bond_distance_SetBondType)
  with t e show ?thesis by simp
qed

lemma infer_bond_orders_member:
  "infer_bond_orders np c positions bonds = Inr bonds' \<Longrightarrow> bond' \<in> set bonds' \<Longrightarrow>
     \<exists>bond \<in> set bonds. infer_bond np c positions bond = Inr bond'"
proof (induction bonds arbitrary: bonds')
  case Nil
  then show ?case by simp
next
  case (Cons b bs)
  then show ?case
    by (auto split: sum.splits)
qed

lemma infer_bond_orders_bond_types:
  assumes "infer_bond_orders np c positions bonds = Inr bonds'" and "bond \<in> set bonds'"
  shows "GetBondType bond \<in> {SINGLE, DOUBLE, TRIPLE}"
proof -
  from infer_bond_orders_member [OF assms] obtain b where "infer_bond np c positions b = Inr bond"
    by blast
  from infer_bond_result [OF this] infer_bond_type_range show ?thesis
    by blast
qed

lemma infer_bond_orders_ends:
  "infer_bond_orders np c positions bonds = Inr bonds' \<Longrightarrow>
     map GetBeginAtom bonds' = map GetBeginAtom bonds \<and> map GetEndAtom bonds' = map GetEndAtom bonds"
proof (induction bonds arbitrary: bonds')
  case Nil
  then show ?case by simp
next
  case (Cons b bs)
  then show ?case
    by (auto split: sum.splits dest: infer_bond_result)
qed

lemma infer_bond_orders_total:
  "(\<And>bond. bond \<in> set bonds \<Longrightarrow> \<exists>bond'. infer_bond np c positions bond = Inr bond') \<Longrightarrow>
     \<exists>bonds'. infer_bond_orders np c positions bonds = Inr bonds'"
proof (induction bonds)
  case Nil
  then show ?case by simp
next
  case (Cons b bs)
  from Cons.prems obtain b' where "infer_bond np c positions b = Inr b'" by auto
  moreover from Cons obtain bs' where "infer_bond_orders np c positions bs = Inr bs'" by auto
  ultimately show ?case by simp
qed

section \<open>\<open>unsaturated_xyz_to_mol\<close>\<close>

text \<open>
  When the function returns, and what: the block parses, the connectivity is found,
  the molecule has a conformer, no iteration of the loop raises, the valences are
  accepted and \<open>AddHs\<close> does not raise; the molecule returned is the one passed to
  \<open>AddHs\<close>.
\<close>

lemma outcome_unsat:
  "outcome (unsaturated_xyz_to_mol np tk c xyz) = Inr mol \<longleftrightarrow>
     (\<exists>m0 m1 conformer bonds valences hs.
        MolFromXYZBlock tk xyz = Inr (Some m0) \<and> DetermineConnectivity tk m0 = Inr m1
        \<and> GetConformer m1 0 = Inr conformer
        \<and> infer_bond_orders np c (GetPositions conformer) (GetBonds m1) = Inr bonds
        \<and> PropertyCache tk (m1\<lparr>GetBonds := bonds\<rparr>) = Inr valences
        \<and> AddHs tk True True (m1\<lparr>GetBonds := bonds, property_cache := Some valences\<rparr>) = Inr hs
        \<and> mol = m1\<lparr>GetBonds := bonds, property_cache := Some valences\<rparr>)"
  by (auto simp add: unsaturated_xyz_to_mol_def then_run_call then_run_lift outcome_def ret_def
      on_mol_def UpdatePropertyCache_def Let_def split: sum.splits option.splits)

lemma GetConformer_keeps:
  "GetConformer (mol\<lparr>GetBonds := bonds, property_cache := cache\<rparr>) i = GetConformer mol i"
  by (simp add: GetConformer_def)

lemma unsaturated_bonds:
  assumes "outcome (unsaturated_xyz_to_mol np tk c xyz) = Inr mol"
  shows "\<exists>parsed connected conformer.
           MolFromXYZBlock tk xyz = Inr (Some parsed)
           \<and> DetermineConnectivity tk parsed = Inr connected
           \<and> GetConformer connected 0 = Inr conformer
           \<and> GetConformer mol 0 = Inr conformer
           \<and> infer_bond_orders np c (GetPositions conformer) (GetBonds connected) = Inr (GetBonds mol)"
  using assms unfolding outcome_unsat
  apply (elim exE conjE)
  subgoal for m0 m1 conformer bonds valences hs
    by (rule exI [of _ m0], rule exI [of _ m1], rule exI [of _ conformer])
      (simp add: GetConformer_keeps)
  done

text \<open>
  Every bond of the molecule returned has the type the classifier gives for the
  symbols of its two atoms and their distance in conformer 0.
\<close>

lemma unsaturated_bond_classified:
  assumes "outcome (unsaturated_xyz_to_mol np tk c xyz) = Inr mol" and "bond \<in> set (GetBonds mol)"
  shows "\<exists>parsed connected conformer distance.
           MolFromXYZBlock tk xyz = Inr (Some parsed)
           \<and> DetermineConnectivity tk parsed = Inr connected
           \<and> GetConformer connected 0 = Inr conformer
           \<and> GetConformer mol 0 = Inr conformer
           \<and> bond_distance np (GetPositions conformer) bond = Inr distance
           \<and> infer_bond_type c (GetSymbol (GetBeginAtom bond)) (GetSymbol (GetEndAtom bond)) distance
               = Inr (GetBondType bond)"
proof -
  from unsaturated_bonds [OF assms(1)] obtain parsed connected conformer where
    p: "MolFromXYZBlock tk xyz = Inr (Some parsed)"
    and d: "DetermineConnectivity tk parsed = Inr connected"
    and c0: "GetConformer connected 0 = Inr conformer" "GetConformer mol 0 = Inr conformer"
    and l: "infer_bond_orders np c (GetPositions conformer) (GetBonds connected) = Inr (GetBonds mol)"
    by blast
  from infer_bond_orders_member [OF l assms(2)] obtain b where
    "infer_bond np c (GetPositions conformer) b = Inr bond"
    by blast
  from infer_bond_result [OF this] obtain distance where
    "bond_distance np (GetPositions conformer) bond = Inr distance"
    "infer_bond_type c (GetSymbol (GetBeginAtom bond)) (GetSymbol (GetEndAtom bond)) distance
       = Inr (GetBondType bond)"
    by blast
  with p d c0 show ?thesis by blast
qed


subsection \<open>The examples\<close>

lemma example_toolkit_fields:
  "MolFromXYZBlock example_toolkit xyz = (if xyz = example_xyz then Inr (Some example_mol) else Inr None)"
  "DetermineConnectivity example_toolkit mol = Inr (mol\<lparr>GetBonds := chain_bonds (GetAtoms mol)\<rparr>)"
  "DetermineBondOrders example_toolkit mol = Inr mol"
  "MolToSmiles example_toolkit mol = Inr (concat (map GetSymbol (GetAtoms mol)))"
  "MolFromSmiles example_toolkit smiles =
     (if smiles = ''C#C'' then Inr (Some (carbon_chain 2)) else Inr None)"
  "AddHs example_toolkit explicitOnly addCoords mol =
     Inr (mol\<lparr>GetAtoms := GetAtoms mol @ [hydrogen (length (GetAtoms mol))]\<rparr>)"
  "EmbedMolecule example_toolkit seed mol =
     Inr (mol\<lparr>GetConformers :=
            [\<lparr>GetPositions = map (\<lambda>a. (Finite (real (GetIdx a)), Finite 0, Finite 0)) (GetAtoms mol)\<rparr>]\<rparr>)"
  "MMFFOptimizeMolecule example_toolkit mol = (if GetConformers mol = [] then Inl ValueError else Inr mol)"
  "MolToXYZBlock example_toolkit mol = Inr (concat (map GetSymbol (GetAtoms mol)))"
  "PropertyCache example_toolkit mol = Inr (map (\<lambda>a. 4) (GetAtoms mol))"
  by (simp_all add: example_toolkit_def)

lemma pair_toolkit_fields:
  "MolFromXYZBlock (pair_toolkit type_1 type_2) xyz = Inr (Some (pair_mol type_1 type_2 [] None))"
  "DetermineConnectivity (pair_toolkit type_1 type_2) mol = Inr (mol\<lparr>GetBonds := [example_bond type_1 type_2]\<rparr>)"
  "AddHs (pair_toolkit type_1 type_2) explicitOnly addCoords mol =
     Inr (mol\<lparr>GetAtoms := GetAtoms mol @ [hydrogen (length (GetAtoms mol))]\<rparr>)"
  "PropertyCache (pair_toolkit type_1 type_2) mol = Inr (map (\<lambda>a. 4) (GetAtoms mol))"
  by (simp_all add: pair_toolkit_def example_toolkit_def)

text \<open>Without rounding the distance is the Euclidean distance times 100.\<close>

lemma exact_distance:
  "multiply exact_numpy (linalg_norm exact_numpy
       (subtract exact_numpy (Finite x1, Finite y1, Finite z1) (Finite x2, Finite y2, Finite z2)))
     (Finite 100)
   = Finite (sqrt ((x1 - x2)\<^sup>2 + (y1 - y2)\<^sup>2 + (z1 - z2)\<^sup>2) * 100)"
  by (simp add: exact_numpy_def)

lemma example_distance_value:
  "sqrt (((0::real) - 0)\<^sup>2 + (0 - 0)\<^sup>2 + (0 - 19 / 16)\<^sup>2) * 100 = 475 / 4"
proof -
  have "((0::real) - 0)\<^sup>2 + (0 - 0)\<^sup>2 + (0 - 19 / 16)\<^sup>2 = (19 / 16)\<^sup>2"
    by (simp add: power2_eq_square)
  then have "sqrt (((0::real) - 0)\<^sup>2 + (0 - 0)\<^sup>2 + (0 - 19 / 16)\<^sup>2) = 19 / 16"
    by (simp only: real_sqrt_abs)
  then show ?thesis by simp
qed

lemma example_bond_distance:
  assumes "GetIdx (GetBeginAtom bond) = 0" and "GetIdx (GetEndAtom bond) = 1"
  shows "bond_distance exact_numpy example_positions bond = Inr (Finite (475 / 4))"
proof -
  have "bond_distance exact_numpy example_positions bond =
      Inr (multiply exact_numpy (linalg_norm exact_numpy
        (subtract exact_numpy (Finite 0, Finite 0, Finite 0) (Finite 0, Finite 0, Finite (19 / 16))))
        (Finite 100))"
    using assms by (simp add: bond_distance_def py_getitem_def example_positions_def)
  then show ?thesis
    by (simp only: exact_distance example_distance_value)
qed

lemma example_bond_type:
  "infer_bond_type example_const ''C'' ''C'' (Finite (475 / 4)) = Inr TRIPLE"
  by (simp add: infer_bond_type_def example_const_def py_getitem_def float64_less_def)

lemma example_connectivity:
  "DetermineConnectivity example_toolkit example_mol = Inr (example_mol\<lparr>GetBonds := [cc_bond SINGLE]\<rparr>)"
  by (simp add: example_toolkit_fields example_mol_def chain_bonds_def cc_bond_def)

lemma example_infer_bond:
  "infer_bond exact_numpy example_const example_positions (cc_bond SINGLE) = Inr (cc_bond TRIPLE)"
proof -
  have i: "GetIdx (GetBeginAtom (cc_bond SINGLE)) = 0" "GetIdx (GetEndAtom (cc_bond SINGLE)) = 1"
    by (simp_all add: cc_bond_def carbon_def)
  have "GetSymbol (GetBeginAtom (cc_bond SINGLE)) = ''C''" "GetSymbol (GetEndAtom (cc_bond SINGLE)) = ''C''"
    by (simp_all add: cc_bond_def carbon_def)
  moreover have "SetBondType (cc_bond SINGLE) TRIPLE = cc_bond TRIPLE"
    by (simp add: SetBondType_def cc_bond_def)
  ultimately show ?thesis
    by (simp add: infer_bond_def example_bond_distance [OF i] example_bond_type)
qed

lemma example_unsaturated_run:
  "unsaturated_xyz_to_mol exact_numpy example_toolkit example_const example_xyz =
     ([Call_MolFromXYZBlock, Call_DetermineConnectivity, Call_UpdatePropertyCache, Call_AddHs],
      Inr example_unsaturated)"
proof -
  have conf: "GetConformer (example_mol\<lparr>GetBonds := [cc_bond SINGLE]\<rparr>) 0 = Inr \<lparr>GetPositions = example_positions\<rparr>"
    by (simp add: GetConformer_def example_mol_def)
  have loop: "infer_bond_orders exact_numpy example_const example_positions [cc_bond SINGLE] = Inr [cc_bond TRIPLE]"
    by (simp add: example_infer_bond)
  have upd: "UpdatePropertyCache example_toolkit (example_mol\<lparr>GetBonds := [cc_bond TRIPLE]\<rparr>) = Inr example_unsaturated"
    by (simp add: UpdatePropertyCache_def example_toolkit_fields example_mol_def example_unsaturated_def)
  show ?thesis
    by (simp add: unsaturated_xyz_to_mol_def then_run_call then_run_lift on_mol_def ret_def
        example_toolkit_fields(1,6) example_connectivity conf loop upd
        del: infer_bond_orders.simps)
qed

text \<open>The run on two atoms of any symbols, given what the classifier returns.\<close>

lemma pair_run:
  assumes "infer_bond_type c type_1 type_2 (Finite (475 / 4)) = Inr bond_type"
  shows "outcome (unsaturated_xyz_to_mol exact_numpy (pair_toolkit type_1 type_2) c xyz) =
     Inr (pair_mol type_1 type_2 [SetBondType (example_bond type_1 type_2) bond_type] (Some [4, 4]))"
proof -
  have i: "GetIdx (GetBeginAtom (example_bond type_1 type_2)) = 0"
    "GetIdx (GetEndAtom (example_bond type_1 type_2)) = 1"
    by (simp_all add: example_bond_def)
  have sym: "GetSymbol (GetBeginAtom (example_bond type_1 type_2)) = type_1"
    "GetSymbol (GetEndAtom (example_bond type_1 type_2)) = type_2"
    by (simp_all add: example_bond_def)
  have conf: "GetConformer (pair_mol type_1 type_2 [] None\<lparr>GetBonds := [example_bond type_1 type_2]\<rparr>) 0
      = Inr \<lparr>GetPositions = example_positions\<rparr>"
    by (simp add: GetConformer_def pair_mol_def)
  have bonds: "GetBonds (pair_mol type_1 type_2 [] None\<lparr>GetBonds := [example_bond type_1 type_2]\<rparr>)
      = [example_bond type_1 type_2]"
    by simp
  have loop: "infer_bond_orders exact_numpy c example_positions [example_bond type_1 type_2]
      = Inr [SetBondType (example_bond type_1 type_2) bond_type]"
    by (simp add: infer_bond_def example_bond_distance [OF i] sym assms)
  have upd: "UpdatePropertyCache (pair_toolkit type_1 type_2)
        (pair_mol type_1 type_2 [] None
           \<lparr>GetBonds := [SetBondType (example_bond type_1 type_2) bond_type]\<rparr>)
      = Inr (pair_mol type_1 type_2 [SetBondType (example_bond type_1 type_2) bond_type] (Some [4, 4]))"
    by (simp add: UpdatePropertyCache_def pair_toolkit_fields pair_mol_def)
  show ?thesis
    by (simp add: unsaturated_xyz_to_mol_def then_run_call then_run_lift on_mol_def ret_def
        outcome_def pair_toolkit_fields(1,2,3) conf bonds loop upd
        del: infer_bond_orders.simps)
qed


lemma example_unsaturated_outcome:
  "outcome (unsaturated_xyz_to_mol exact_numpy example_toolkit example_const example_xyz)
     = Inr example_unsaturated"
  by (simp add: example_unsaturated_run outcome_def)

text \<open>
  C1.  Let the element pair of a bond of the molecule returned have an entry in both
  tables, the triple threshold of the pair not above its double threshold (a triple
  bond is shorter than a double bond).  Then the bond is triple if the distance of
  its atoms in conformer 0 is strictly below the triple length plus \<open>margins[2]\<close>,
  else double if it is strictly below the double length plus \<open>margins[1]\<close>, else
  single.
\<close>

theorem C1_both_tables_classification:
  assumes "outcome (unsaturated_xyz_to_mol np tk c xyz) = Inr mol"
    and "bond \<in> set (GetBonds mol)"
    and "BONDS_2 c (GetSymbol (GetBeginAtom bond)) = Some row_2"
    and "row_2 (GetSymbol (GetEndAtom bond)) = Some len_2"
    and "BONDS_3 c (GetSymbol (GetBeginAtom bond)) = Some row_3"
    and "row_3 (GetSymbol (GetEndAtom bond)) = Some len_3"
    and "2 < length (MARGINS_EDM c)"
    and "len_3 + MARGINS_EDM c ! 2 \<le> len_2 + MARGINS_EDM c ! 1"
  shows "\<exists>conformer distance.
           GetConformer mol 0 = Inr conformer
           \<and> bond_distance np (GetPositions conformer) bond = Inr distance
           \<and> GetBondType bond =
               (if float64_less distance (len_3 + MARGINS_EDM c ! 2) then TRIPLE
                else if float64_less distance (len_2 + MARGINS_EDM c ! 1) then DOUBLE
                else SINGLE)"
proof -
  from unsaturated_bond_classified [OF assms(1,2)] obtain conformer distance where
    c0: "GetConformer mol 0 = Inr conformer"
    and d: "bond_distance np (GetPositions conformer) bond = Inr distance"
    and t: "infer_bond_type c (GetSymbol (GetBeginAtom bond)) (GetSymbol (GetEndAtom bond)) distance
       = Inr (GetBondType bond)"
    by blast
  from t have "GetBondType bond =
      (if float64_less distance (len_3 + MARGINS_EDM c ! 2) then TRIPLE
       else if float64_less distance (len_2 + MARGINS_EDM c ! 1) then DOUBLE
       else SINGLE)"
    by (simp add: infer_bond_type_ordered_tables [OF assms(3-8)])
  with c0 d show ?thesis by blast
qed

text \<open>
  The two carbon atoms at 118.75 pm, below the triple threshold 122 and the double
  threshold 139.
\<close>

theorem C1_both_tables_classification_witness:
  "outcome (unsaturated_xyz_to_mol exact_numpy example_toolkit example_const example_xyz)
     = Inr example_unsaturated
   \<and> GetBonds example_unsaturated = [cc_bond TRIPLE]
   \<and> bond_distance exact_numpy example_positions (cc_bond TRIPLE) = Inr (Finite (475 / 4))
   \<and> float64_less (Finite (475 / 4)) (120 + 2)
   \<and> GetBondType (cc_bond TRIPLE) = TRIPLE"
proof -
  have b: "cc_bond TRIPLE \<in> set (GetBonds example_unsaturated)"
    "GetBonds example_unsaturated = [cc_bond TRIPLE]"
    by (simp_all add: example_unsaturated_def)
  have s: "GetSymbol (GetBeginAtom (cc_bond TRIPLE)) = ''C''" "GetSymbol (GetEndAtom (cc_bond TRIPLE)) = ''C''"
    by (simp_all add: cc_bond_def carbon_def)
  have i: "GetIdx (GetBeginAtom (cc_bond TRIPLE)) = 0" "GetIdx (GetEndAtom (cc_bond TRIPLE)) = 1"
    by (simp_all add: cc_bond_def carbon_def)
  have b2: "BONDS_2 example_const (GetSymbol (GetBeginAtom (cc_bond TRIPLE))) = Some [''C'' \<mapsto> 134, ''N'' \<mapsto> 129]"
    by (simp add: s example_const_def)
  have r2: "[''C'' \<mapsto> 134, ''N'' \<mapsto> 129] (GetSymbol (GetEndAtom (cc_bond TRIPLE))) = Some (134::real)"
    by (simp add: s)
  have b3: "BONDS_3 example_const (GetSymbol (GetBeginAtom (cc_bond TRIPLE))) = Some [''C'' \<mapsto> 120]"
    by (simp add: s example_const_def)
  have r3: "[''C'' \<mapsto> 120] (GetSymbol (GetEndAtom (cc_bond TRIPLE))) = Some (120::real)"
    by (simp add: s)
  have m: "2 < length (MARGINS_EDM example_const)"
    "120 + MARGINS_EDM example_const ! 2 \<le> 134 + MARGINS_EDM example_const ! 1"
    by (simp_all add: example_const_def)
  have c0: "GetConformer example_unsaturated 0 = Inr \<lparr>GetPositions = example_positions\<rparr>"
    by (simp add: GetConformer_def example_unsaturated_def)
  from C1_both_tables_classification [OF example_unsaturated_outcome b(1) b2 r2 b3 r3 m]
  have "GetBondType (cc_bond TRIPLE) =
      (if float64_less (Finite (475 / 4)) (120 + MARGINS_EDM example_const ! 2) then TRIPLE
       else if float64_less (Finite (475 / 4)) (134 + MARGINS_EDM example_const ! 1) then DOUBLE
       else SINGLE)"
    by (simp add: c0 example_bond_distance [OF i])
  moreover have "MARGINS_EDM example_const = [10, 5, 2]"
    by (simp add: example_const_def)
  moreover have "float64_less (Finite (475 / 4)) (120 + 2)"
    by (simp add: float64_less_def)
  ultimately show ?thesis
    by (simp add: example_unsaturated_outcome b(2) example_bond_distance [OF i])
qed

text \<open>
  C3.  In the molecule that \<open>unsaturated_xyz_to_mol\<close> returns, a bond whose element
  pair, begin-atom symbol first and end-atom symbol second, has no entry in the
  double-bond table has the type single: whatever the positions, the arithmetic, the
  triple-bond table and the margins are.
\<close>

theorem C3_no_double_entry_single:
  assumes "outcome (unsaturated_xyz_to_mol np tk c xyz) = Inr mol"
    and "bond \<in> set (GetBonds mol)"
    and "BONDS_2 c (GetSymbol (GetBeginAtom bond)) = None
     \<or> (\<exists>row_2. BONDS_2 c (GetSymbol (GetBeginAtom bond)) = Some row_2
            \<and> row_2 (GetSymbol (GetEndAtom bond)) = None)"
  shows "GetBondType bond = SINGLE"
proof -
  from unsaturated_bond_classified [OF assms(1,2)] obtain distance where
    "infer_bond_type c (GetSymbol (GetBeginAtom bond)) (GetSymbol (GetEndAtom bond)) distance
       = Inr (GetBondType bond)"
    by blast
  then show ?thesis
    by (simp add: infer_bond_type_no_double_entry [OF assms(3)])
qed

lemma pair_run_single:
  assumes "BONDS_2 c type_1 = None \<or> (\<exists>row_2. BONDS_2 c type_1 = Some row_2 \<and> row_2 type_2 = None)"
  shows "outcome (unsaturated_xyz_to_mol exact_numpy (pair_toolkit type_1 type_2) c xyz) =
     Inr (pair_mol type_1 type_2 [SetBondType (example_bond type_1 type_2) SINGLE] (Some [4, 4]))"
  by (rule pair_run) (rule infer_bond_type_no_double_entry [OF assms])

text \<open>
  The pair B-B has an entry in the triple-bond table only, and the distance is below
  its triple threshold; the pair O-P is in the double-bond table only under the key
  order P-O; the row of C has no entry for P.  The bond has no type before the loop
  and is single in the molecule returned.
\<close>

theorem C3_no_double_entry_single_witness:
  "BONDS_3 example_const ''B'' = Some [''B'' \<mapsto> 150]
   \<and> float64_less (Finite (475 / 4)) (150 + 2)
   \<and> GetBondType (example_bond ''B'' ''B'') = UNSPECIFIED
   \<and> outcome (unsaturated_xyz_to_mol exact_numpy (pair_toolkit ''B'' ''B'') example_const example_xyz)
       = Inr (pair_mol ''B'' ''B'' [SetBondType (example_bond ''B'' ''B'') SINGLE] (Some [4, 4]))
   \<and> GetBondType (SetBondType (example_bond ''B'' ''B'') SINGLE) = SINGLE
   \<and> GetBondType (SetBondType (example_bond ''O'' ''P'') SINGLE) = SINGLE
   \<and> GetBondType (SetBondType (example_bond ''C'' ''P'') SINGLE) = SINGLE"
proof -
  have sym: "GetSymbol (GetBeginAtom (SetBondType (example_bond type_1 type_2) SINGLE)) = type_1"
    "GetSymbol (GetEndAtom (SetBondType (example_bond type_1 type_2) SINGLE)) = type_2"
    for type_1 type_2
    by (simp_all add: SetBondType_def example_bond_def)
  have mem: "SetBondType (example_bond type_1 type_2) SINGLE
      \<in> set (GetBonds (pair_mol type_1 type_2 [SetBondType (example_bond type_1 type_2) SINGLE] (Some [4, 4])))"
    for type_1 type_2
    by (simp add: pair_mol_def)
  have bb: "BONDS_2 example_const ''B'' = None \<or>
      (\<exists>row_2. BONDS_2 example_const ''B'' = Some row_2 \<and> row_2 ''B'' = None)"
    by (simp add: example_const_def)
  have op: "BONDS_2 example_const ''O'' = None \<or>
      (\<exists>row_2. BONDS_2 example_const ''O'' = Some row_2 \<and> row_2 ''P'' = None)"
    by (simp add: example_const_def)
  have cp: "BONDS_2 example_const ''C'' = None \<or>
      (\<exists>row_2. BONDS_2 example_const ''C'' = Some row_2 \<and> row_2 ''P'' = None)"
    by (simp add: example_const_def)
  have b3: "BONDS_3 example_const ''B'' = Some [''B'' \<mapsto> 150]"
    by (simp add: example_const_def)
  have u: "GetBondType (example_bond ''B'' ''B'') = UNSPECIFIED"
    by (simp add: example_bond_def)
  from C3_no_double_entry_single [OF pair_run_single [OF bb, of example_xyz] mem]
    C3_no_double_entry_single [OF pair_run_single [OF op, of example_xyz] mem]
    C3_no_double_entry_single [OF pair_run_single [OF cp, of example_xyz] mem]
  show ?thesis
    using bb op cp by (simp add: sym b3 u float64_less_def pair_run_single [OF bb])
qed

text \<open>
  C4.  For every bond of the molecule returned, the distance given to the classifier
  is computed from the rows of the begin atom and of the end atom in the positions
  of conformer 0 of the molecule \<open>DetermineConnectivity\<close> produced: the norm of
  their difference, multiplied by 100.
\<close>

theorem C4_distance_in_picometers:
  assumes "outcome (unsaturated_xyz_to_mol np tk c xyz) = Inr mol"
    and "bond \<in> set (GetBonds mol)"
  shows "\<exists>parsed connected conformer.
           MolFromXYZBlock tk xyz = Inr (Some parsed)
           \<and> DetermineConnectivity tk parsed = Inr connected
           \<and> GetConformer connected 0 = Inr conformer
           \<and> GetIdx (GetBeginAtom bond) < length (GetPositions conformer)
           \<and> GetIdx (GetEndAtom bond) < length (GetPositions conformer)
           \<and> infer_bond_type c (GetSymbol (GetBeginAtom bond)) (GetSymbol (GetEndAtom bond))
               (multiply np
                  (linalg_norm np
                     (subtract np (GetPositions conformer ! GetIdx (GetBeginAtom bond))
                        (GetPositions conformer ! GetIdx (GetEndAtom bond))))
                  (Finite 100))
               = Inr (GetBondType bond)"
proof -
  from unsaturated_bond_classified [OF assms] obtain parsed connected conformer distance where
    p: "MolFromXYZBlock tk xyz = Inr (Some parsed)"
    and d: "DetermineConnectivity tk parsed = Inr connected"
    and c0: "GetConformer connected 0 = Inr conformer"
    and bd: "bond_distance np (GetPositions conformer) bond = Inr distance"
    and t: "infer_bond_type c (GetSymbol (GetBeginAtom bond)) (GetSymbol (GetEndAtom bond)) distance
       = Inr (GetBondType bond)"
    by blast
  from bd have i: "GetIdx (GetBeginAtom bond) < length (GetPositions conformer)"
    "GetIdx (GetEndAtom bond) < length (GetPositions conformer)"
    and "distance = multiply np
                  (linalg_norm np
                     (subtract np (GetPositions conformer ! GetIdx (GetBeginAtom bond))
                        (GetPositions conformer ! GetIdx (GetEndAtom bond))))
                  (Finite 100)"
    by (auto simp add: bond_distance_def py_getitem_def Let_def split: if_splits)
  with p d c0 t show ?thesis by blast
qed

text \<open>
  Atoms 1.1875 angstroms apart are at 118.75 picometers.
\<close>

theorem C4_distance_in_picometers_witness:
  "outcome (unsaturated_xyz_to_mol exact_numpy example_toolkit example_const example_xyz)
     = Inr example_unsaturated
   \<and> GetBonds example_unsaturated = [cc_bond TRIPLE]
   \<and> multiply exact_numpy
       (linalg_norm exact_numpy
          (subtract exact_numpy (Finite 0, Finite 0, Finite 0) (Finite 0, Finite 0, Finite (19 / 16))))
       (Finite 100) = Finite (475 / 4)
   \<and> infer_bond_type example_const ''C'' ''C'' (Finite (475 / 4)) = Inr TRIPLE"
proof -
  have b: "cc_bond TRIPLE \<in> set (GetBonds example_unsaturated)"
    "GetBonds example_unsaturated = [cc_bond TRIPLE]"
    by (simp_all add: example_unsaturated_def)
  have d: "multiply exact_numpy
       (linalg_norm exact_numpy
          (subtract exact_numpy (Finite 0, Finite 0, Finite 0) (Finite 0, Finite 0, Finite (19 / 16))))
       (Finite 100) = Finite (475 / 4)"
    by (simp only: exact_distance example_distance_value)
  from C4_distance_in_picometers [OF example_unsaturated_outcome b(1)]
  have "infer_bond_type example_const ''C'' ''C'' (Finite (475 / 4)) = Inr TRIPLE"
    by (simp add: example_toolkit_fields example_connectivity GetConformer_def example_mol_def
        cc_bond_def carbon_def example_positions_def d)
  with b(2) d show ?thesis
    by (simp add: example_unsaturated_outcome)
qed

text \<open>
  C9.  In the molecule that \<open>unsaturated_xyz_to_mol\<close> returns, the type of every
  bond is single, double or triple; its bonds are the bonds found by
  \<open>DetermineConnectivity\<close>, each between the same two atoms.
\<close>

theorem C9_bond_types:
  assumes "outcome (unsaturated_xyz_to_mol np tk c xyz) = Inr mol"
  shows "(\<forall>bond \<in> set (GetBonds mol). GetBondType bond \<in> {SINGLE, DOUBLE, TRIPLE})
     \<and> (\<exists>parsed connected.
           MolFromXYZBlock tk xyz = Inr (Some parsed)
           \<and> DetermineConnectivity tk parsed = Inr connected
           \<and> map GetBeginAtom (GetBonds mol) = map GetBeginAtom (GetBonds connected)
           \<and> map GetEndAtom (GetBonds mol) = map GetEndAtom (GetBonds connected))"
proof -
  from unsaturated_bonds [OF assms] obtain parsed connected conformer where
    p: "MolFromXYZBlock tk xyz = Inr (Some parsed)"
    and d: "DetermineConnectivity tk parsed = Inr connected"
    and "GetConformer connected 0 = Inr conformer"
    and l: "infer_bond_orders np c (GetPositions conformer) (GetBonds connected) = Inr (GetBonds mol)"
    by blast
  from l have "\<forall>bond \<in> set (GetBonds mol). GetBondType bond \<in> {SINGLE, DOUBLE, TRIPLE}"
    using infer_bond_orders_bond_types by blast
  moreover from p d infer_bond_orders_ends [OF l]
  have "\<exists>parsed connected.
           MolFromXYZBlock tk xyz = Inr (Some parsed)
           \<and> DetermineConnectivity tk parsed = Inr connected
           \<and> map GetBeginAtom (GetBonds mol) = map GetBeginAtom (GetBonds connected)
           \<and> map GetEndAtom (GetBonds mol) = map GetEndAtom (GetBonds connected)"
    by blast
  ultimately show ?thesis by simp
qed

theorem C9_bond_types_witness:
  "outcome (unsaturated_xyz_to_mol exact_numpy example_toolkit example_const example_xyz) = Inr example_unsaturated
   \<and> GetBonds example_unsaturated = [cc_bond TRIPLE]
   \<and> GetBondType (cc_bond TRIPLE) \<in> {SINGLE, DOUBLE, TRIPLE}"
proof -
  have b: "GetBonds example_unsaturated = [cc_bond TRIPLE]"
    by (simp add: example_unsaturated_def)
  from C9_bond_types [OF example_unsaturated_outcome]
  have "GetBondType (cc_bond TRIPLE) \<in> {SINGLE, DOUBLE, TRIPLE}"
    by (simp add: b)
  with example_unsaturated_outcome b show ?thesis by simp
qed

lemma unsaturated_returns_argument_of_AddHs:
  assumes "outcome (unsaturated_xyz_to_mol np tk c xyz) = Inr mol"
  shows "(\<exists>hs. AddHs tk True True mol = Inr hs)
     \<and> (\<exists>parsed connected. MolFromXYZBlock tk xyz = Inr (Some parsed)
           \<and> DetermineConnectivity tk parsed = Inr connected
           \<and> GetAtoms mol = GetAtoms connected)"
  using assms unfolding outcome_unsat
  apply (elim exE conjE)
  subgoal for m0 m1 conformer bonds valences hs
    apply (rule conjI)
     apply (rule exI [of _ hs], simp)
    apply (rule exI [of _ m0], rule exI [of _ m1], simp)
    done
  done

text \<open>
  C2.  On the two-carbon block the function calls \<open>AddHs\<close> and returns a molecule
  of two carbon atoms and no hydrogen, although \<open>AddHs\<close> on that molecule gives one
  with a hydrogen atom: the molecule with the hydrogens is dropped.
\<close>

theorem C2_hydrogens_discarded:
  "unsaturated_xyz_to_mol exact_numpy example_toolkit example_const example_xyz =
     ([Call_MolFromXYZBlock, Call_DetermineConnectivity, Call_UpdatePropertyCache, Call_AddHs],
      Inr example_unsaturated)
   \<and> map GetSymbol (GetAtoms example_unsaturated) = [''C'', ''C'']
   \<and> AddHs example_toolkit True True example_unsaturated =
       Inr (example_unsaturated\<lparr>GetAtoms := [carbon 0, carbon 1, hydrogen 2]\<rparr>)"
  by (simp add: example_unsaturated_run example_toolkit_fields example_unsaturated_def carbon_def
      numeral_2_eq_2)


section \<open>\<open>smiles_to_xyz\<close>\<close>

text \<open>
  C5 (as amended).  Under the lock, \<open>smiles_to_xyz\<close> parses the SMILES, adds
  explicit hydrogens, embeds 3D coordinates with the seed 1, optimizes the geometry
  and serializes to XYZ text, in this order.  When no call raises these are exactly
  its calls and it returns the text.  When a call raises, as \<open>AddHs\<close> does on the
  \<open>None\<close> the parser returns for a string it cannot read, the later calls are not
  made, the lock is released and the exception propagates.
\<close>

theorem C5_smiles_to_xyz_sequence:
  "smiles_to_xyz tk smiles =
     (case MolFromSmiles tk smiles of
        Inl e \<Rightarrow> ([Acquire_generate_lock, Call_MolFromSmiles, Release_generate_lock], Inl e)
      | Inr None \<Rightarrow>
          ([Acquire_generate_lock, Call_MolFromSmiles, Call_AddHs, Release_generate_lock],
           Inl ArgumentError)
      | Inr (Some parsed) \<Rightarrow>
          (case AddHs tk False False parsed of
             Inl e \<Rightarrow>
               ([Acquire_generate_lock, Call_MolFromSmiles, Call_AddHs, Release_generate_lock], Inl e)
           | Inr with_hs \<Rightarrow>
               (case EmbedMolecule tk 1 with_hs of
                  Inl e \<Rightarrow>
                    ([Acquire_generate_lock, Call_MolFromSmiles, Call_AddHs, Call_EmbedMolecule 1,
                      Release_generate_lock], Inl e)
                | Inr embedded \<Rightarrow>
                    (case MMFFOptimizeMolecule tk embedded of
                       Inl e \<Rightarrow>
                         ([Acquire_generate_lock, Call_MolFromSmiles, Call_AddHs, Call_EmbedMolecule 1,
                           Call_MMFFOptimizeMolecule, Release_generate_lock], Inl e)
                     | Inr optimized \<Rightarrow>
                         (Acquire_generate_lock # spec_smiles_to_xyz_calls @ [Release_generate_lock],
                          MolToXYZBlock tk optimized)))))"
  by (simp add: smiles_to_xyz_def with_generate_lock_def then_run_call ret_def on_mol_def
      spec_smiles_to_xyz_calls_def split: sum.splits option.splits)

theorem C5_smiles_to_xyz_sequence_witness:
  "smiles_to_xyz example_toolkit ''C#C'' =
     ([Acquire_generate_lock, Call_MolFromSmiles, Call_AddHs, Call_EmbedMolecule 1,
       Call_MMFFOptimizeMolecule, Call_MolToXYZBlock, Release_generate_lock], Inr ''CCH'')"
proof -
  have atoms: "GetAtoms (carbon_chain 2) = [carbon 0, carbon 1]"
    by (simp add: carbon_chain_def upt_rec)
  show ?thesis
    using C5_smiles_to_xyz_sequence [of example_toolkit "''C#C''"]
    by (simp add: example_toolkit_fields atoms spec_smiles_to_xyz_calls_def carbon_def hydrogen_def)
qed

text \<open>
  C5 as stated fails on a string that is not a SMILES: the parser returns \<open>None\<close>,
  \<open>AddHs\<close> raises, there is no embedding, optimization or serialization, and no text
  is returned.
\<close>

theorem C5_counterexample:
  "smiles_to_xyz example_toolkit ''not a SMILES'' =
     ([Acquire_generate_lock, Call_MolFromSmiles, Call_AddHs, Release_generate_lock],
      Inl ArgumentError)"
  by (simp add: smiles_to_xyz_def with_generate_lock_def then_run_call on_mol_def
      example_toolkit_fields)

text \<open>
  On every input the toolkit calls are an initial part of the sequence, between the
  acquisition and the release of the lock, and the only seed passed is 1.
\<close>

lemma smiles_to_xyz_calls_prefix:
  "\<exists>body. calls (smiles_to_xyz tk smiles) = Acquire_generate_lock # body @ [Release_generate_lock]
     \<and> prefix body spec_smiles_to_xyz_calls"
  by (simp add: smiles_to_xyz_def with_generate_lock_def then_run_call ret_def on_mol_def
      calls_def spec_smiles_to_xyz_calls_def split: sum.splits option.splits)

lemma smiles_to_xyz_seed:
  "Call_EmbedMolecule seed \<in> set (calls (smiles_to_xyz tk smiles)) \<Longrightarrow> seed = 1"
  by (auto simp add: smiles_to_xyz_def with_generate_lock_def then_run_call ret_def on_mol_def
      calls_def split: sum.splits option.splits)

section \<open>Two calls of \<open>smiles_to_xyz\<close> in two threads\<close>

lemma project_Nil: "project t [] = []"
  by (simp add: project_def)

lemma project_Cons: "project t ((v, ev) # s) = (if v = t then ev # project t s else project t s)"
  by (simp add: project_def)

lemma project_map_Pair: "project t (map (Pair v) evs) = (if v = t then evs else [])"
  by (induction evs) (auto simp add: project_Nil project_Cons)

lemma project_append: "project t (s @ s') = project t s @ project t s'"
  by (simp add: project_def)

lemma thread_two: "t \<noteq> u \<Longrightarrow> v = t \<or> v = (u::thread)"
  by (cases t; cases u; cases v) simp_all

lemma lock_respected_call:
  "ev \<noteq> Acquire_generate_lock \<Longrightarrow> ev \<noteq> Release_generate_lock \<Longrightarrow>
     lock_respected held ((t, ev) # s) = lock_respected held s"
  by (cases ev) simp_all

lemma only_other_thread:
  assumes "t \<noteq> u" and "project t s = []"
  shows "s = map (Pair u) (project u s)"
  using assms(2)
proof (induction s)
  case Nil
  then show ?case by (simp add: project_Nil)
next
  case (Cons x xs)
  obtain v ev where x: "x = (v, ev)" by (cases x)
  with Cons.prems have "v \<noteq> t" by (auto simp add: project_Cons split: if_splits)
  with thread_two [OF assms(1), of v] have v: "v = u" by simp
  from Cons.prems x \<open>v \<noteq> t\<close> have "project t xs = []" by (simp add: project_Cons)
  with Cons.IH x v show ?case by (simp add: project_Cons)
qed

text \<open>
  While a thread holds the lock, the other thread, whose next event is the
  acquisition, cannot move: the schedule goes on with the body of the holder up to
  its release.
\<close>

lemma critical_section:
  assumes "t \<noteq> u"
    and "Acquire_generate_lock \<notin> set body" and "Release_generate_lock \<notin> set body"
    and "lock_respected True s"
    and "project t s = body @ [Release_generate_lock]"
    and "project u s = Acquire_generate_lock # rest"
  shows "\<exists>s'. s = map (Pair t) (body @ [Release_generate_lock]) @ s'
     \<and> project t s' = [] \<and> project u s' = Acquire_generate_lock # rest"
  using assms(2-)
proof (induction body arbitrary: s)
  case Nil
  from Nil.prems(4) obtain x s1 where s: "s = x # s1"
    by (cases s) (simp_all add: project_Nil)
  obtain v ev where x: "x = (v, ev)" by (cases x)
  show ?case
  proof (cases "v = t")
    case True
    with Nil.prems(4) s x have "ev = Release_generate_lock" "project t s1 = []"
      by (simp_all add: project_Cons)
    moreover from Nil.prems(5) s x True assms(1) have "project u s1 = Acquire_generate_lock # rest"
      by (simp add: project_Cons)
    ultimately show ?thesis using s x True by simp
  next
    case False
    with thread_two [OF assms(1), of v] have "v = u" by simp
    with Nil.prems(5) s x have "ev = Acquire_generate_lock" by (simp add: project_Cons)
    with Nil.prems(3) s x show ?thesis by simp
  qed
next
  case (Cons b body)
  from Cons.prems(4) obtain x s1 where s: "s = x # s1"
    by (cases s) (simp_all add: project_Nil)
  obtain v ev where x: "x = (v, ev)" by (cases x)
  show ?case
  proof (cases "v = t")
    case True
    with Cons.prems(4) s x have e: "ev = b" and p: "project t s1 = body @ [Release_generate_lock]"
      by (simp_all add: project_Cons)
    from Cons.prems(1,2) have nb: "b \<noteq> Acquire_generate_lock" "b \<noteq> Release_generate_lock"
      and n: "Acquire_generate_lock \<notin> set body" "Release_generate_lock \<notin> set body"
      by auto
    from Cons.prems(3) s x e nb have l: "lock_respected True s1"
      by (simp add: lock_respected_call)
    from Cons.prems(5) s x True assms(1) have "project u s1 = Acquire_generate_lock # rest"
      by (simp add: project_Cons)
    from Cons.IH [OF n l p this] obtain s' where
      "s1 = map (Pair t) (body @ [Release_generate_lock]) @ s'"
      "project t s' = []" "project u s' = Acquire_generate_lock # rest"
      by blast
    with s x True e show ?thesis by simp
  next
    case False
    with thread_two [OF assms(1), of v] have "v = u" by simp
    with Cons.prems(5) s x have "ev = Acquire_generate_lock" by (simp add: project_Cons)
    with Cons.prems(3) s x show ?thesis by simp
  qed
qed

lemma first_thread_runs_alone:
  assumes "t \<noteq> u"
    and "Acquire_generate_lock \<notin> set body_t" and "Release_generate_lock \<notin> set body_t"
    and "lock_respected False ((t, ev) # s)"
    and "project t ((t, ev) # s) = Acquire_generate_lock # body_t @ [Release_generate_lock]"
    and "project u ((t, ev) # s) = Acquire_generate_lock # rest"
  shows "(t, ev) # s = map (Pair t) (Acquire_generate_lock # body_t @ [Release_generate_lock])
     @ map (Pair u) (Acquire_generate_lock # rest)"
proof -
  from assms(5) have e: "ev = Acquire_generate_lock"
    and p: "project t s = body_t @ [Release_generate_lock]"
    by (simp_all add: project_Cons)
  from assms(4) e have l: "lock_respected True s" by simp
  from assms(6,1) have "project u s = Acquire_generate_lock # rest"
    by (simp add: project_Cons)
  from critical_section [OF assms(1-3) l p this] obtain s' where
    s: "s = map (Pair t) (body_t @ [Release_generate_lock]) @ s'"
    and "project t s' = []" and r: "project u s' = Acquire_generate_lock # rest"
    by blast
  from only_other_thread [OF assms(1) this(2)] r
  have "s' = map (Pair u) (Acquire_generate_lock # rest)" by simp
  with s e show ?thesis by simp
qed

lemma locked_runs_serial:
  assumes "lock_respected False s"
    and "project Thread_1 s = Acquire_generate_lock # body_1 @ [Release_generate_lock]"
    and "project Thread_2 s = Acquire_generate_lock # body_2 @ [Release_generate_lock]"
    and "Acquire_generate_lock \<notin> set body_1" and "Release_generate_lock \<notin> set body_1"
    and "Acquire_generate_lock \<notin> set body_2" and "Release_generate_lock \<notin> set body_2"
  shows "serial s (Acquire_generate_lock # body_1 @ [Release_generate_lock])
     (Acquire_generate_lock # body_2 @ [Release_generate_lock])"
proof -
  from assms(2) obtain x s1 where s: "s = x # s1"
    by (cases s) (simp_all add: project_Nil)
  obtain v ev where x: "x = (v, ev)" by (cases x)
  show ?thesis
  proof (cases v)
    case Thread_1
    have "Thread_1 \<noteq> Thread_2" by simp
    from first_thread_runs_alone
      [where ev = ev and s = s1 and rest = "body_2 @ [Release_generate_lock]", OF this assms(4,5)]
      assms(1,2,3) s x Thread_1
    show ?thesis by (simp add: serial_def)
  next
    case Thread_2
    have "Thread_2 \<noteq> Thread_1" by simp
    from first_thread_runs_alone
      [where ev = ev and s = s1 and rest = "body_1 @ [Release_generate_lock]", OF this assms(6,7)]
      assms(1,2,3) s x Thread_2
    show ?thesis by (simp add: serial_def)
  qed
qed

lemma smiles_to_xyz_log:
  "\<exists>body. calls (smiles_to_xyz tk smiles) = Acquire_generate_lock # body @ [Release_generate_lock]
     \<and> prefix body spec_smiles_to_xyz_calls
     \<and> Acquire_generate_lock \<notin> set body \<and> Release_generate_lock \<notin> set body"
proof -
  from smiles_to_xyz_calls_prefix obtain body where
    c: "calls (smiles_to_xyz tk smiles) = Acquire_generate_lock # body @ [Release_generate_lock]"
    and p: "prefix body spec_smiles_to_xyz_calls"
    by blast
  from p have "set body \<subseteq> set spec_smiles_to_xyz_calls" by (rule set_mono_prefix)
  then have "Acquire_generate_lock \<notin> set body \<and> Release_generate_lock \<notin> set body"
    by (auto simp add: spec_smiles_to_xyz_calls_def)
  with c p show ?thesis by blast
qed

text \<open>
  C7.  The log of every call of \<open>smiles_to_xyz\<close> is the acquisition of the lock,
  toolkit calls, and the release of the lock.  So in every schedule of two calls in
  two threads that respects the lock, one call runs from its acquisition to its
  release before the other acquires the lock: no toolkit call of one, the embedding
  in particular, lies between two toolkit calls of the other.
\<close>

theorem C7_lock_serializes:
  assumes "project Thread_1 s = calls (smiles_to_xyz tk_1 smiles_1)"
    and "project Thread_2 s = calls (smiles_to_xyz tk_2 smiles_2)"
    and "lock_respected False s"
  shows "(\<exists>body_1 body_2.
            calls (smiles_to_xyz tk_1 smiles_1) = Acquire_generate_lock # body_1 @ [Release_generate_lock]
            \<and> calls (smiles_to_xyz tk_2 smiles_2) = Acquire_generate_lock # body_2 @ [Release_generate_lock]
            \<and> prefix body_1 spec_smiles_to_xyz_calls \<and> prefix body_2 spec_smiles_to_xyz_calls)
     \<and> serial s (calls (smiles_to_xyz tk_1 smiles_1)) (calls (smiles_to_xyz tk_2 smiles_2))"
proof -
  from smiles_to_xyz_log [of tk_1 smiles_1] obtain body_1 where
    c1: "calls (smiles_to_xyz tk_1 smiles_1) = Acquire_generate_lock # body_1 @ [Release_generate_lock]"
    and p1: "prefix body_1 spec_smiles_to_xyz_calls"
    and n1: "Acquire_generate_lock \<notin> set body_1" "Release_generate_lock \<notin> set body_1"
    by blast
  from smiles_to_xyz_log [of tk_2 smiles_2] obtain body_2 where
    c2: "calls (smiles_to_xyz tk_2 smiles_2) = Acquire_generate_lock # body_2 @ [Release_generate_lock]"
    and p2: "prefix body_2 spec_smiles_to_xyz_calls"
    and n2: "Acquire_generate_lock \<notin> set body_2" "Release_generate_lock \<notin> set body_2"
    by blast
  from assms c1 c2 have
    "project Thread_1 s = Acquire_generate_lock # body_1 @ [Release_generate_lock]"
    "project Thread_2 s = Acquire_generate_lock # body_2 @ [Release_generate_lock]"
    by simp_all
  from locked_runs_serial [OF assms(3) this n1 n2] c1 c2
  have "serial s (calls (smiles_to_xyz tk_1 smiles_1)) (calls (smiles_to_xyz tk_2 smiles_2))"
    by simp
  with c1 c2 p1 p2 show ?thesis by blast
qed

lemma example_calls: "calls (smiles_to_xyz example_toolkit ''C#C'') = example_log"
proof -
  have atoms: "GetAtoms (carbon_chain 2) = [carbon 0, carbon 1]"
    by (simp add: carbon_chain_def upt_rec)
  show ?thesis
    by (simp add: smiles_to_xyz_def with_generate_lock_def then_run_call ret_def on_mol_def
        calls_def example_toolkit_fields atoms example_log_def spec_smiles_to_xyz_calls_def)
qed

theorem C7_lock_serializes_witness:
  "project Thread_1 example_schedule = calls (smiles_to_xyz example_toolkit ''C#C'')
   \<and> project Thread_2 example_schedule = calls (smiles_to_xyz example_toolkit ''C#C'')
   \<and> lock_respected False example_schedule
   \<and> serial example_schedule example_log example_log"
proof -
  have p: "project Thread_1 example_schedule = calls (smiles_to_xyz example_toolkit ''C#C'')"
    "project Thread_2 example_schedule = calls (smiles_to_xyz example_toolkit ''C#C'')"
    by (simp_all add: example_calls example_schedule_def project_append project_map_Pair)
  have l: "lock_respected False example_schedule"
    by (simp add: example_schedule_def example_log_def spec_smiles_to_xyz_calls_def)
  from C7_lock_serializes [OF p l] p l show ?thesis
    by (simp add: example_calls)
qed

text \<open>
  Without the lock events the two bodies can alternate: the lock is what makes the
  schedules serial.
\<close>

lemma bodies_interleave_without_lock:
  "project Thread_1 interleaved_bodies = spec_smiles_to_xyz_calls
   \<and> project Thread_2 interleaved_bodies = spec_smiles_to_xyz_calls
   \<and> lock_respected False interleaved_bodies
   \<and> \<not> serial interleaved_bodies spec_smiles_to_xyz_calls spec_smiles_to_xyz_calls"
  by (simp add: interleaved_bodies_def project_def spec_smiles_to_xyz_calls_def serial_def)

section \<open>\<open>xyz_to_smiles\<close>\<close>

text \<open>
  C6.  \<open>xyz_to_smiles\<close> is \<open>xyz_to_mol\<close> followed by \<open>MolToSmiles\<close>: it raises
  what \<open>xyz_to_mol\<close> raises, and otherwise returns the serialization of the molecule
  \<open>xyz_to_mol\<close> returns, after the calls of \<open>xyz_to_mol\<close> and one call of the
  serializer.
\<close>

theorem C6_xyz_to_smiles_composition:
  "outcome (xyz_to_smiles tk xyz) =
     (case outcome (xyz_to_mol tk xyz) of
        Inl e \<Rightarrow> Inl e
      | Inr mol \<Rightarrow> MolToSmiles tk mol)
   \<and> calls (xyz_to_smiles tk xyz) =
     (case outcome (xyz_to_mol tk xyz) of
        Inl e \<Rightarrow> calls (xyz_to_mol tk xyz)
      | Inr mol \<Rightarrow> calls (xyz_to_mol tk xyz) @ [Call_MolToSmiles])"
  by (simp add: xyz_to_smiles_def then_run_def call_def outcome_def calls_def
      split: prod.splits sum.splits)

lemma example_xyz_to_smiles:
  "xyz_to_smiles example_toolkit example_xyz =
     ([Call_MolFromXYZBlock, Call_DetermineConnectivity, Call_DetermineBondOrders, Call_MolToSmiles],
      Inr ''CC'')"
  by (simp add: xyz_to_smiles_def xyz_to_mol_def then_run_call on_mol_def ret_def
      example_toolkit_fields example_mol_def carbon_def then_run_def call_def)

end
